theory Spec2Isabelle
  imports Main "HOL-Library.Sublist"
begin

section \<open>Errors, results and formatted text\<close>

text \<open>
  A Go \<^verbatim>\<open>error\<close> value is kept as the text its \<^verbatim>\<open>Error()\<close> method returns; a nil
  error is \<open>None\<close> of \<open>error option\<close>. A call that can panic returns a \<open>result\<close>.
\<close>

datatype error = ErrorString (Error: string)

datatype 'a result = Returns 'a | Panics

text \<open>\<^verbatim>\<open>fmt.Errorf(pre + "%v", err)\<close> for a literal prefix without verbs: a new error value.\<close>

definition Errorf_v :: "string \<Rightarrow> error \<Rightarrow> error" where
  "Errorf_v pre err = ErrorString (pre @ Error err)"

definition newline :: char where
  "newline = CHR 0x0A"

text \<open>
  \<^verbatim>\<open>fmt.Sprintf\<close> on string operands, for the fragment of the format language the program
  can reach: literal text, \<^verbatim>\<open>%%\<close>, the flags \<^verbatim>\<open>+ - 0\<close> and space, and the verbs \<^verbatim>\<open>s\<close> and
  \<^verbatim>\<open>v\<close>. A verb with no operand left prints \<^verbatim>\<open>%!v(MISSING)\<close>, a format that ends inside a
  verb prints \<^verbatim>\<open>%!(NOVERB)\<close>, operands left over print \<^verbatim>\<open>%!(EXTRA string=...)\<close>. Outside the
  fragment (width, precision, argument index, \<^verbatim>\<open>#\<close>, other verbs applied to an operand,
  a verb that is not ASCII) the result is \<open>None\<close>.
\<close>

fun extraArgs :: "string list \<Rightarrow> string" where
  "extraArgs [] = []"
| "extraArgs [a] = ''string='' @ a"
| "extraArgs (a # b # as) = ''string='' @ a @ '', '' @ extraArgs (b # as)"

fun doPrintf :: "string \<Rightarrow> string list \<Rightarrow> string option"
  and verb :: "string \<Rightarrow> string list \<Rightarrow> string option" where
  "doPrintf [] [] = Some []"
| "doPrintf [] (a # as) = Some (''%!(EXTRA '' @ extraArgs (a # as) @ '')'')"
| "doPrintf (c # fs) as =
     (if c = CHR ''%'' then verb fs as else map_option (Cons c) (doPrintf fs as))"
| "verb [] as = map_option (append ''%!(NOVERB)'') (doPrintf [] as)"
| "verb (c # fs) as =
     (if c \<in> set ''+- 0'' then verb fs as
      else if c = CHR ''%'' then map_option (Cons c) (doPrintf fs as)
      else if c \<in> set ''#.*[123456789'' \<or> digit7 c then None
      else (case as of
              [] \<Rightarrow> map_option (append (''%!'' @ [c] @ ''(MISSING)'')) (doPrintf fs [])
            | a # as' \<Rightarrow>
                if c = CHR ''s'' \<or> c = CHR ''v'' then map_option (append a) (doPrintf fs as')
                else None))"

definition Sprintf :: "string \<Rightarrow> string list \<Rightarrow> string option" where
  "Sprintf format a = doPrintf format a"

subsection \<open>strings.TrimSpace and strings.HasPrefix\<close>

text \<open>
  Go strings are byte sequences holding UTF-8. \<^verbatim>\<open>unicode.IsSpace\<close> accepts the six ASCII
  characters tab, line feed, vertical tab, form feed, carriage return and space, U+0085,
  U+00A0, U+1680, U+2000 to U+200A, U+2028, U+2029, U+202F, U+205F and U+3000; the list
  holds their encodings.
\<close>

definition spaces :: "string list" where
  "spaces =
    [[CHR 0x09], [CHR 0x0A], [CHR 0x0B], [CHR 0x0C], [CHR 0x0D], [CHR 0x20],
     [CHR 0xC2, CHR 0x85], [CHR 0xC2, CHR 0xA0], [CHR 0xE1, CHR 0x9A, CHR 0x80],
     [CHR 0xE2, CHR 0x80, CHR 0x80], [CHR 0xE2, CHR 0x80, CHR 0x81],
     [CHR 0xE2, CHR 0x80, CHR 0x82], [CHR 0xE2, CHR 0x80, CHR 0x83],
     [CHR 0xE2, CHR 0x80, CHR 0x84], [CHR 0xE2, CHR 0x80, CHR 0x85],
     [CHR 0xE2, CHR 0x80, CHR 0x86], [CHR 0xE2, CHR 0x80, CHR 0x87],
     [CHR 0xE2, CHR 0x80, CHR 0x88], [CHR 0xE2, CHR 0x80, CHR 0x89],
     [CHR 0xE2, CHR 0x80, CHR 0x8A], [CHR 0xE2, CHR 0x80, CHR 0xA8],
     [CHR 0xE2, CHR 0x80, CHR 0xA9], [CHR 0xE2, CHR 0x80, CHR 0xAF],
     [CHR 0xE2, CHR 0x81, CHR 0x9F], [CHR 0xE3, CHR 0x80, CHR 0x80]]"

text \<open>The number of bytes of the white space rune that \<open>s\<close> starts with, 0 when there is none.\<close>

definition spaceWidth :: "string list \<Rightarrow> string \<Rightarrow> nat" where
  "spaceWidth sps s = (case find (\<lambda>p. prefix p s) sps of None \<Rightarrow> 0 | Some p \<Rightarrow> length p)"

function trimLeftWith :: "string list \<Rightarrow> string \<Rightarrow> string" where
  "trimLeftWith sps s =
     (if spaceWidth sps s = 0 then s else trimLeftWith sps (drop (spaceWidth sps s) s))"
  by pat_completeness auto
termination
proof (relation "measure (\<lambda>(sps, s). length s)")
  show "wf (measure (\<lambda>(sps :: string list, s :: string). length s))"
    by simp
next
  fix sps :: "string list" and s :: string
  assume "spaceWidth sps s \<noteq> 0"
  then obtain p where p: "find (\<lambda>p. prefix p s) sps = Some p" "length p \<noteq> 0"
    by (auto simp: spaceWidth_def split: option.splits)
  from p(1) have "prefix p s"
    by (auto simp: find_Some_iff)
  then have "length p \<le> length s"
    by (rule prefix_length_le)
  moreover from p(2) have "0 < length p"
    by simp
  ultimately have "length s - length p < length s"
    by arith
  with p(1) show "((sps, drop (spaceWidth sps s) s), (sps, s)) \<in> measure (\<lambda>(sps, s). length s)"
    by (simp add: spaceWidth_def)
qed

definition TrimLeftSpace :: "string \<Rightarrow> string" where
  "TrimLeftSpace s = trimLeftWith spaces s"

definition TrimRightSpace :: "string \<Rightarrow> string" where
  "TrimRightSpace s = rev (trimLeftWith (map rev spaces) (rev s))"

definition TrimSpace :: "string \<Rightarrow> string" where
  "TrimSpace s = TrimRightSpace (TrimLeftSpace s)"

definition HasPrefix :: "string \<Rightarrow> string \<Rightarrow> bool" where
  "HasPrefix s pre = prefix pre s"

section \<open>Data model\<close>

text \<open>
  Pointers to commands are addresses into a store of commands; \<^verbatim>\<open>&cmd.PreRunE\<close> and
  \<^verbatim>\<open>cmd.Flags()\<close> are pointers into the command at that address.
\<close>

type_synonym addr = nat

datatype fnptr = PreRunE_of addr

datatype flagset = Flags_of addr

text \<open>
  A \<^verbatim>\<open>logger.Logger\<close> is an interface value: a sink, or a logger derived from one by
  \<^verbatim>\<open>Nested\<close> with a field name and value.
\<close>

datatype Logger = Sink nat | Nested Logger string string

datatype Level = InfoLevel | DebugLevel

text \<open>
  The profile selector of the development configuration. The source names the two
  constants \<^verbatim>\<open>ProfileCPU\<close> and \<^verbatim>\<open>ProfileMem\<close> (distinct, as they label two cases of one
  switch); every other value of the type is \<open>ProfileOther\<close>.
\<close>

datatype Profile = ProfileCPU | ProfileMem | ProfileOther string

datatype profile_Mode = CPUProfile | MemProfile

record DevelopmentConfig =
  Profile :: Profile

text \<open>The logging configuration is a struct declared elsewhere, kept as its field values.\<close>

type_synonym LoggingConfig = "(string \<times> string) list"

text \<open>
  A caller-supplied configuration object, described by what each capability the program
  uses of it yields: \<open>unmarshal\<close> is the outcome of the loader populating it, \<open>postLoad\<close> is
  \<open>None\<close> when it has no post-load hook and \<open>Some r\<close> when the hook returns \<open>r\<close>,
  \<open>stringer\<close> is \<open>Some s\<close> when it implements \<^verbatim>\<open>fmt.Stringer\<close> with text \<open>s\<close>, and \<open>marshal\<close>
  is what \<^verbatim>\<open>yaml.Marshal\<close> returns for it.
\<close>

record ConfigObject =
  ident :: nat
  unmarshal :: "error option"
  postLoad :: "error option option"
  stringer :: "string option"
  marshal :: "error + string"

text \<open>
  A non-nil value of type \<^verbatim>\<open>any\<close> in a configuration list: \<^verbatim>\<open>&a.state.Config\<close>, the
  application \<^verbatim>\<open>a\<close> itself, or a caller's object. The nil interface value is \<open>None\<close>.
\<close>

datatype any = CoreConfigPtr | AppPtr | ObjectPtr ConfigObject

record Config =
  Log :: "LoggingConfig option"
  Dev :: "DevelopmentConfig option"
  FromCommands :: "any option list"

record State =
  Config :: Config
  Logger :: "Logger option"
  RedactStore :: "string list option"
  Bus :: "nat option"
  Subscription :: "nat option"
  UIs :: "nat list"

type_synonym Initializer = "State \<Rightarrow> error option \<times> State"

record Identification =
  Name :: string
  Version :: string

record FangsConfig =
  fangsLogger :: "Logger option"

text \<open>Post-construct hooks are function values; the configuration holds their identities.\<close>

record SetupConfig =
  ID :: Identification
  DefaultLoggingConfig :: "LoggingConfig option"
  DefaultDevelopmentConfig :: "DevelopmentConfig option"
  Initializers :: "Initializer list"
  postConstructs :: "nat list"
  FangsConfig :: FangsConfig

record application =
  root :: "addr option"
  setupConfig :: SetupConfig
  state :: State

text \<open>
  Function values bound to a command. A caller's pre-execution hook is opaque: an
  identity and the error it returns for a command and arguments. \<open>SetupThen\<close> is the
  closure \<^verbatim>\<open>setupCommand\<close> builds, capturing \<^verbatim>\<open>cfgs\<close> and \<^verbatim>\<open>original\<close>; \<open>AppRun\<close> is the
  closure \<^verbatim>\<open>Run\<close> builds, capturing \<^verbatim>\<open>fn\<close>: called, it hands \<^verbatim>\<open>fn\<close> to \<^verbatim>\<open>async\<close> and the
  channel to \<^verbatim>\<open>run\<close>. A caller's execution hook is kept by its identity.
\<close>

datatype PreRunFn =
    UserPreRun nat "addr \<Rightarrow> string list \<Rightarrow> error option"
  | SetupThen "any option list" "PreRunFn option"

datatype RunFn = UserRun nat | AppRun RunFn

record Command =
  Use :: string
  cmdVersion :: string
  versionTemplate :: string
  PreRunE :: "PreRunFn option"
  RunE :: "RunFn option"
  SilenceUsage :: bool
  SilenceErrors :: bool

type_synonym heap = "addr \<Rightarrow> Command"

text \<open>What the program does to its collaborators, in the order it does it.\<close>

datatype event =
    Load addr "any option list"
  | PostLoadCall any
  | Logf Logger Level string "string list"
  | Logp Logger Level string
  | AddFlags "Logger option" flagset "any option list"
  | HookCall nat addr "string list"
  | PostConstructCall nat
  | ProfileStart profile_Mode
  | ProfileStop profile_Mode
  | EventLoop nat Logger "nat option" nat "nat list"

record world =
  app :: application
  cmds :: heap
  trace :: "event list"

text \<open>
  The collaborators whose code is not in the source file, as parameters:
  \<^item> \<open>state_setup\<close>: \<^verbatim>\<open>State.setup\<close>, the resource construction of this repository;
  \<^item> \<open>populateCore\<close>, \<open>postLoadCore\<close>: what the configuration loader's sources yield for the
    core configuration, and the core configuration's post-load hook if it has one;
  \<^item> \<open>coreStringer\<close>, \<open>coreMarshal\<close>, \<open>appStringer\<close>, \<open>appMarshal\<close>: the text representation and
    the YAML serialization of the core configuration and of the application;
  \<^item> \<open>indent_String\<close>, \<open>Magenta_Sprint\<close>: indentation and colouring of text;
  \<^item> \<open>eventloop\<close>: the event loop of this repository, by the result of a call;
  \<^item> \<open>postConstruct\<close>: what the post-construct hook of a given identity does to the
    application and to the commands it reaches through it.
\<close>

record deps =
  state_setup :: "SetupConfig \<Rightarrow> State \<Rightarrow> error option \<times> State"
  populateCore :: "FangsConfig \<Rightarrow> addr \<Rightarrow> Config \<Rightarrow> error + Config"
  postLoadCore :: "(Config \<Rightarrow> error option \<times> Config) option"
  coreStringer :: "Config \<Rightarrow> string option"
  coreMarshal :: "Config \<Rightarrow> error + string"
  appStringer :: "application \<Rightarrow> string option"
  appMarshal :: "application \<Rightarrow> error + string"
  indent_String :: "string \<Rightarrow> string \<Rightarrow> string"
  Magenta_Sprint :: "string \<Rightarrow> string"
  eventloop :: "nat \<Rightarrow> Logger \<Rightarrow> nat option \<Rightarrow> nat \<Rightarrow> nat list \<Rightarrow> error option result"
  postConstruct :: "nat \<Rightarrow> application \<times> heap \<Rightarrow> application \<times> heap"

section \<open>Logging\<close>

text \<open>
  The logger is an interface value held in the state; calling a method of a nil
  interface panics. \<^verbatim>\<open>Infof\<close> and \<^verbatim>\<open>Debugf\<close> take a format and operands, \<^verbatim>\<open>Debug\<close> takes
  the text itself.
\<close>

definition Infof :: "Logger option \<Rightarrow> string \<Rightarrow> string list \<Rightarrow> event list \<Rightarrow> unit result \<times> event list" where
  "Infof log format args tr =
     (case log of None \<Rightarrow> (Panics, tr)
      | Some l \<Rightarrow> (Returns (), tr @ [Logf l InfoLevel format args]))"

definition Debugf :: "Logger option \<Rightarrow> string \<Rightarrow> string list \<Rightarrow> event list \<Rightarrow> unit result \<times> event list" where
  "Debugf log format args tr =
     (case log of None \<Rightarrow> (Panics, tr)
      | Some l \<Rightarrow> (Returns (), tr @ [Logf l DebugLevel format args]))"

definition Debug :: "Logger option \<Rightarrow> string \<Rightarrow> event list \<Rightarrow> unit result \<times> event list" where
  "Debug log text tr =
     (case log of None \<Rightarrow> (Panics, tr)
      | Some l \<Rightarrow> (Returns (), tr @ [Logp l DebugLevel text]))"

text \<open>The text of a log record: the format applied to the operands, or the text given.\<close>

fun message :: "event \<Rightarrow> string option" where
  "message (Logf l lvl format args) = Sprintf format args"
| "message (Logp l lvl text) = Some text"
| "message _ = None"

fun isLog :: "event \<Rightarrow> bool" where
  "isLog (Logf l lvl format args) = True"
| "isLog (Logp l lvl text) = True"
| "isLog _ = False"

definition logVersion :: "SetupConfig \<Rightarrow> Logger option \<Rightarrow> event list \<Rightarrow> unit result \<times> event list" where
  "logVersion cfg log tr =
     (if Version (ID cfg) = [] then Infof log (Name (ID cfg)) [] tr
      else Infof log ''%s version: %+v'' [Name (ID cfg), Version (ID cfg)] tr)"

text \<open>
  The text of one configuration object in \<^verbatim>\<open>logConfiguration\<close>: its own \<^verbatim>\<open>String()\<close> when it
  is a \<^verbatim>\<open>fmt.Stringer\<close>, else its YAML serialization, else the text of the serialization
  error.
\<close>

definition render :: "('a \<Rightarrow> string option) \<Rightarrow> ('a \<Rightarrow> error + string) \<Rightarrow> 'a \<Rightarrow> string" where
  "render str mar cfg =
     (case str cfg of
        Some s \<Rightarrow> s
      | None \<Rightarrow> (case mar cfg of Inl err \<Rightarrow> Error err | Inr cfgBytes \<Rightarrow> cfgBytes))"

text \<open>The loop of \<^verbatim>\<open>logConfiguration\<close>; \<open>sb\<close> is the content of the string builder.\<close>

fun logConfiguration_loop ::
  "('a \<Rightarrow> string option) \<Rightarrow> ('a \<Rightarrow> error + string) \<Rightarrow> 'a option list \<Rightarrow> string \<Rightarrow> string" where
  "logConfiguration_loop str mar [] sb = sb"
| "logConfiguration_loop str mar (None # cfgs) sb = logConfiguration_loop str mar cfgs sb"
| "logConfiguration_loop str mar (Some cfg # cfgs) sb =
     (let s = TrimSpace (render str mar cfg)
      in logConfiguration_loop str mar cfgs
           (if s \<noteq> [] \<and> s \<noteq> ''{}'' then sb @ s @ [newline] else sb))"

definition logConfiguration ::
  "(string \<Rightarrow> string \<Rightarrow> string) \<Rightarrow> (string \<Rightarrow> string) \<Rightarrow> ('a \<Rightarrow> string option) \<Rightarrow> ('a \<Rightarrow> error + string) \<Rightarrow>
   Logger option \<Rightarrow> 'a option list \<Rightarrow> event list \<Rightarrow> unit result \<times> event list" where
  "logConfiguration ind mag str mar log cfgs tr =
     (let content = logConfiguration_loop str mar cfgs []
      in if content \<noteq> []
         then Debugf log (''config:'' @ [newline] @ ''%+v'') [mag (ind ''  '' (TrimSpace content))] tr
         else Debug log ''config: (none)'' tr)"

section \<open>Setup\<close>

fun nonNil_loop :: "'a option list \<Rightarrow> 'a option list \<Rightarrow> 'a option list" where
  "nonNil_loop [] ret = ret"
| "nonNil_loop (v # a) ret = nonNil_loop a (if v \<noteq> None then ret @ [v] else ret)"

definition nonNil :: "'a option list \<Rightarrow> 'a option list" where
  "nonNil a = nonNil_loop a []"

fun runInitializers_loop :: "Initializer list \<Rightarrow> State \<Rightarrow> error option \<times> State" where
  "runInitializers_loop [] s = (None, s)"
| "runInitializers_loop (init # inits) s =
     (case init s of
        (Some err, s') \<Rightarrow> (Some err, s')
      | (None, s') \<Rightarrow> runInitializers_loop inits s')"

definition runInitializers :: "application \<Rightarrow> error option \<times> application" where
  "runInitializers a =
     (case runInitializers_loop (Initializers (setupConfig a)) (state a) of
        (r, s) \<Rightarrow> (r, a\<lparr>state := s\<rparr>))"

definition PostLoad :: "deps \<Rightarrow> application \<Rightarrow> error option \<times> application" where
  "PostLoad D a =
     (case state_setup D (setupConfig a) (state a) of
        (Some err, s) \<Rightarrow> (Some err, a\<lparr>state := s\<rparr>)
      | (None, s) \<Rightarrow> runInitializers (a\<lparr>state := s\<rparr>))"

subsection \<open>The configuration loader\<close>

text \<open>
  Modelled from the spec: \<^verbatim>\<open>fangs.Load\<close> is a function of another library. The loader
  populates every target's fields from the sources and then invokes the post-load hook,
  in list order, on each target that has one; the first failure ends the load and is its
  result. Nothing of the application itself is populated (its fields are excluded from
  loading).
\<close>

fun populate :: "deps \<Rightarrow> FangsConfig \<Rightarrow> addr \<Rightarrow> any option list \<Rightarrow> application \<Rightarrow> error option \<times> application" where
  "populate D fc cmd [] a = (None, a)"
| "populate D fc cmd (None # ts) a = populate D fc cmd ts a"
| "populate D fc cmd (Some CoreConfigPtr # ts) a =
     (case populateCore D fc cmd (Config (state a)) of
        Inl err \<Rightarrow> (Some err, a)
      | Inr c \<Rightarrow> populate D fc cmd ts (a\<lparr>state := (state a)\<lparr>Config := c\<rparr>\<rparr>))"
| "populate D fc cmd (Some AppPtr # ts) a = populate D fc cmd ts a"
| "populate D fc cmd (Some (ObjectPtr obj) # ts) a =
     (case unmarshal obj of Some err \<Rightarrow> (Some err, a) | None \<Rightarrow> populate D fc cmd ts a)"

fun postLoads :: "deps \<Rightarrow> any option list \<Rightarrow> world \<Rightarrow> error option \<times> world" where
  "postLoads D [] w = (None, w)"
| "postLoads D (None # ts) w = postLoads D ts w"
| "postLoads D (Some CoreConfigPtr # ts) w =
     (case postLoadCore D of
        None \<Rightarrow> postLoads D ts w
      | Some hook \<Rightarrow>
          (case hook (Config (state (app w))) of
             (r, c) \<Rightarrow>
               (let w' = w\<lparr>app := (app w)\<lparr>state := (state (app w))\<lparr>Config := c\<rparr>\<rparr>,
                           trace := trace w @ [PostLoadCall CoreConfigPtr]\<rparr>
                in case r of Some err \<Rightarrow> (Some err, w') | None \<Rightarrow> postLoads D ts w')))"
| "postLoads D (Some AppPtr # ts) w =
     (case PostLoad D (app w) of
        (r, a) \<Rightarrow>
          (let w' = w\<lparr>app := a, trace := trace w @ [PostLoadCall AppPtr]\<rparr>
           in case r of Some err \<Rightarrow> (Some err, w') | None \<Rightarrow> postLoads D ts w'))"
| "postLoads D (Some (ObjectPtr obj) # ts) w =
     (case postLoad obj of
        None \<Rightarrow> postLoads D ts w
      | Some r \<Rightarrow>
          (let w' = w\<lparr>trace := trace w @ [PostLoadCall (ObjectPtr obj)]\<rparr>
           in case r of Some err \<Rightarrow> (Some err, w') | None \<Rightarrow> postLoads D ts w'))"

definition fangs_Load :: "deps \<Rightarrow> FangsConfig \<Rightarrow> addr \<Rightarrow> any option list \<Rightarrow> world \<Rightarrow> error option \<times> world" where
  "fangs_Load D fc cmd targets w =
     (let w0 = w\<lparr>trace := trace w @ [Load cmd targets]\<rparr>
      in case populate D fc cmd targets (app w0) of
           (Some err, a) \<Rightarrow> (Some err, w0\<lparr>app := a\<rparr>)
         | (None, a) \<Rightarrow> postLoads D targets (w0\<lparr>app := a\<rparr>))"

text \<open>\<^verbatim>\<open>fangs.AddFlags\<close> is a function of the same library: the call is recorded.\<close>

definition fangs_AddFlags :: "Logger option \<Rightarrow> flagset \<Rightarrow> any option list \<Rightarrow> world \<Rightarrow> world" where
  "fangs_AddFlags log flags cfgs w = w\<lparr>trace := trace w @ [AddFlags log flags cfgs]\<rparr>"

subsection \<open>loadConfigs and Setup\<close>

definition loadConfigs ::
  "deps \<Rightarrow> addr \<Rightarrow> bool \<Rightarrow> any option list \<Rightarrow> world \<Rightarrow> (any option list \<times> error option) \<times> world" where
  "loadConfigs D cmd withResources cfgs w =
     (let allConfigs = [Some CoreConfigPtr];
          allConfigs = (if withResources then allConfigs @ [Some AppPtr] else allConfigs);
          allConfigs = allConfigs @ cfgs;
          allConfigs = nonNil allConfigs
      in case fangs_Load D (FangsConfig (setupConfig (app w))) cmd allConfigs w of
           (Some err, w') \<Rightarrow> (([], Some (Errorf_v ''invalid application config: '' err)), w')
         | (None, w') \<Rightarrow> ((allConfigs, None), w'))"

text \<open>How \<^verbatim>\<open>logConfiguration\<close> sees a value of the load list, for the application \<open>a\<close>.\<close>

fun stringerOf :: "deps \<Rightarrow> application \<Rightarrow> any \<Rightarrow> string option" where
  "stringerOf D a CoreConfigPtr = coreStringer D (Config (state a))"
| "stringerOf D a AppPtr = appStringer D a"
| "stringerOf D a (ObjectPtr obj) = stringer obj"

fun marshalOf :: "deps \<Rightarrow> application \<Rightarrow> any \<Rightarrow> error + string" where
  "marshalOf D a CoreConfigPtr = coreMarshal D (Config (state a))"
| "marshalOf D a AppPtr = appMarshal D a"
| "marshalOf D a (ObjectPtr obj) = marshal obj"

text \<open>The function \<^verbatim>\<open>Setup(cfgs...)\<close> returns, applied to a command and its arguments.\<close>

definition Setup :: "deps \<Rightarrow> any option list \<Rightarrow> addr \<Rightarrow> string list \<Rightarrow> world \<Rightarrow> error option result \<times> world" where
  "Setup D cfgs cmd args w =
     (case loadConfigs D cmd True cfgs w of
        ((allConfigs, Some err), w') \<Rightarrow> (Returns (Some err), w')
      | ((allConfigs, None), w') \<Rightarrow>
          (case logVersion (setupConfig (app w')) (Logger (state (app w'))) (trace w') of
             (Panics, tr) \<Rightarrow> (Panics, w'\<lparr>trace := tr\<rparr>)
           | (Returns u, tr) \<Rightarrow>
               (case logConfiguration (indent_String D) (Magenta_Sprint D)
                       (stringerOf D (app w')) (marshalOf D (app w'))
                       (Logger (state (app w'))) allConfigs tr of
                  (Panics, tr') \<Rightarrow> (Panics, w'\<lparr>trace := tr'\<rparr>)
                | (Returns u', tr') \<Rightarrow> (Returns None, w'\<lparr>trace := tr'\<rparr>))))"

section \<open>Command binding\<close>

text \<open>
  Calling a function value held in \<^verbatim>\<open>PreRunE\<close>. A caller's hook is recorded with the
  command and arguments it receives; the closure of \<^verbatim>\<open>setupCommand\<close> runs its body.
\<close>

fun callPreRunE :: "deps \<Rightarrow> PreRunFn \<Rightarrow> addr \<Rightarrow> string list \<Rightarrow> world \<Rightarrow> error option result \<times> world" where
  "callPreRunE D (UserPreRun k body) cmd args w =
     (Returns (body cmd args), w\<lparr>trace := trace w @ [HookCall k cmd args]\<rparr>)"
| "callPreRunE D (SetupThen cfgs original) cmd args w =
     (case Setup D cfgs cmd args w of
        (Returns None, w') \<Rightarrow>
          (case original of
             Some orig \<Rightarrow> callPreRunE D orig cmd args w'
           | None \<Rightarrow> (Returns None, w'))
      | (r, w') \<Rightarrow> (r, w'))"

definition load_fn :: "fnptr \<Rightarrow> world \<Rightarrow> PreRunFn option" where
  "load_fn fn w = (case fn of PreRunE_of c \<Rightarrow> PreRunE (cmds w c))"

definition store_fn :: "fnptr \<Rightarrow> PreRunFn option \<Rightarrow> world \<Rightarrow> world" where
  "store_fn fn f w =
     (case fn of PreRunE_of c \<Rightarrow> w\<lparr>cmds := (cmds w)(c := (cmds w c)\<lparr>PreRunE := f\<rparr>)\<rparr>)"

definition Run :: "RunFn \<Rightarrow> RunFn" where
  "Run fn = AppRun fn"

definition setupCommand ::
  "deps \<Rightarrow> addr \<Rightarrow> flagset \<Rightarrow> fnptr \<Rightarrow> any option list \<Rightarrow> world \<Rightarrow> addr \<times> world" where
  "setupCommand D cmd flags fn cfgs w =
     (let original = load_fn fn w;
          w = store_fn fn (Some (SetupThen cfgs original)) w;
          w = (case RunE (cmds w cmd) of
                 None \<Rightarrow> w
               | Some f \<Rightarrow> w\<lparr>cmds := (cmds w)(cmd := (cmds w cmd)\<lparr>RunE := Some (Run f)\<rparr>)\<rparr>);
          w = w\<lparr>cmds := (cmds w)(cmd := (cmds w cmd)\<lparr>SilenceUsage := True\<rparr>)\<rparr>;
          w = w\<lparr>cmds := (cmds w)(cmd := (cmds w cmd)\<lparr>SilenceErrors := True\<rparr>)\<rparr>;
          a = app w;
          w = w\<lparr>app := a\<lparr>state := (state a)\<lparr>Config := (Config (state a))
                 \<lparr>FromCommands := FromCommands (Config (state a)) @ cfgs\<rparr>\<rparr>\<rparr>\<rparr>;
          w = fangs_AddFlags (fangsLogger (FangsConfig (setupConfig (app w)))) flags cfgs w
      in (cmd, w))"

text \<open>
  \<^verbatim>\<open>cp\<close> returns nil for nil and a pointer to a fresh copy otherwise. Values are not
  shared in the model, so the copy is the value itself.
\<close>

definition cp :: "'a option \<Rightarrow> 'a option" where
  "cp v = (case v of None \<Rightarrow> None | Some t \<Rightarrow> Some t)"

text \<open>The loop over the post-construct hooks: each call is recorded, then takes effect.\<close>

fun runPostConstructs :: "deps \<Rightarrow> nat list \<Rightarrow> world \<Rightarrow> world" where
  "runPostConstructs D [] w = w"
| "runPostConstructs D (pc # pcs) w =
     (case postConstruct D pc (app w, cmds w) of
        (a, h) \<Rightarrow> runPostConstructs D pcs
                    (w\<lparr>app := a, cmds := h, trace := trace w @ [PostConstructCall pc]\<rparr>))"

definition setupRootCommand :: "deps \<Rightarrow> addr \<Rightarrow> any option list \<Rightarrow> world \<Rightarrow> addr \<times> world" where
  "setupRootCommand D cmd cfgs w =
     (let ident = ID (setupConfig (app w));
          w = (if \<not> HasPrefix (Use (cmds w cmd)) (Name ident)
               then w\<lparr>cmds := (cmds w)(cmd := (cmds w cmd)\<lparr>Use := Name ident\<rparr>)\<rparr>
               else w);
          w = w\<lparr>cmds := (cmds w)(cmd := (cmds w cmd)\<lparr>cmdVersion := Version ident\<rparr>)\<rparr>;
          w = w\<lparr>cmds := (cmds w)(cmd := (cmds w cmd)
                 \<lparr>versionTemplate := Name ident @ '' {{.Version}}'' @ [newline]\<rparr>)\<rparr>;
          a = app w;
          a = a\<lparr>state := (state a)\<lparr>Config := (Config (state a))
                 \<lparr>Log := cp (DefaultLoggingConfig (setupConfig a))\<rparr>\<rparr>\<rparr>;
          a = a\<lparr>state := (state a)\<lparr>Config := (Config (state a))
                 \<lparr>Dev := cp (DefaultDevelopmentConfig (setupConfig a))\<rparr>\<rparr>\<rparr>;
          w = w\<lparr>app := a\<rparr>;
          w = runPostConstructs D (postConstructs (setupConfig a)) w
      in setupCommand D cmd (Flags_of cmd) (PreRunE_of cmd) cfgs w)"

definition SetupCommand :: "deps \<Rightarrow> addr \<Rightarrow> any option list \<Rightarrow> world \<Rightarrow> addr \<times> world" where
  "SetupCommand D cmd cfgs w = setupCommand D cmd (Flags_of cmd) (PreRunE_of cmd) cfgs w"

definition SetupRootCommand :: "deps \<Rightarrow> addr \<Rightarrow> any option list \<Rightarrow> world \<Rightarrow> addr \<times> world" where
  "SetupRootCommand D cmd cfgs w =
     setupRootCommand D cmd cfgs (w\<lparr>app := (app w)\<lparr>root := Some cmd\<rparr>\<rparr>)"

definition New :: "SetupConfig \<Rightarrow> application" where
  "New cfg =
     \<lparr>root = None, setupConfig = cfg,
      state = \<lparr>Config = \<lparr>Log = None, Dev = None, FromCommands = []\<rparr>, Logger = None,
               RedactStore = Some [], Bus = None, Subscription = None, UIs = []\<rparr>\<rparr>"

section \<open>The event-loop driver\<close>

text \<open>
  \<^verbatim>\<open>defer profile.Start(m).Stop()\<close> starts the session where the statement stands and
  leaves \<^verbatim>\<open>Stop\<close> to run when \<^verbatim>\<open>run\<close> is left, by return or by panic. The arguments of
  \<^verbatim>\<open>eventloop\<close> are computed first: \<^verbatim>\<open>Nested\<close> on a nil logger panics before the call.
  \<^verbatim>\<open>profile.Start\<close> is taken to return the session it starts; \<open>ctx\<close> and \<open>errs\<close> are the
  identities of the context and of the channel.
\<close>

definition run :: "deps \<Rightarrow> nat \<Rightarrow> nat \<Rightarrow> world \<Rightarrow> error option result \<times> world" where
  "run D ctx errs w =
     (let a = app w;
          (deferred, w) =
            (case Dev (Config (state a)) of
               None \<Rightarrow> ([], w)
             | Some dev \<Rightarrow>
                 (case Profile dev of
                    ProfileCPU \<Rightarrow> ([CPUProfile], w\<lparr>trace := trace w @ [ProfileStart CPUProfile]\<rparr>)
                  | ProfileMem \<Rightarrow> ([MemProfile], w\<lparr>trace := trace w @ [ProfileStart MemProfile]\<rparr>)
                  | ProfileOther p \<Rightarrow> ([], w)));
          (r, w) =
            (case Logger (state a) of
               None \<Rightarrow> (Panics, w)
             | Some l \<Rightarrow>
                 (let log = Nested l ''component'' ''eventloop''
                  in (eventloop D ctx log (Subscription (state a)) errs (UIs (state a)),
                      w\<lparr>trace := trace w @ [EventLoop ctx log (Subscription (state a)) errs (UIs (state a))]\<rparr>)))
      in (r, w\<lparr>trace := trace w @ map ProfileStop (rev deferred)\<rparr>))"

section \<open>The async execution bridge\<close>

text \<open>
  \<^verbatim>\<open>async\<close> makes an unbuffered channel, starts a goroutine and returns the channel. The
  goroutine runs the body \<^verbatim>\<open>f\<close>; when \<^verbatim>\<open>f\<close> returns an error it sends it, which blocks
  until a receiver takes the value; the deferred \<^verbatim>\<open>close\<close> runs when the goroutine's
  function is left, also when \<^verbatim>\<open>f\<close> panics (the panic then ends the program).

  The body is opaque: \<open>None\<close> when the call never returns, \<open>Some (n, r)\<close> when it ends with
  \<open>r\<close> after \<open>n\<close> steps. The goroutine is a machine: \<open>Body\<close> while \<^verbatim>\<open>f\<close> runs, \<open>AtSend\<close> while
  blocked in the send, \<open>AtClose\<close> before the deferred call (with whether it is panicking),
  \<open>Exited\<close> or \<open>Crashed\<close> after it. \<open>ops\<close> lists the completed operations on the channel.
\<close>

type_synonym body = "(nat \<times> error option result) option"

datatype chan_op = Send error | Close

datatype pc = Body body | AtSend error | AtClose bool | Exited | Crashed

record goroutine =
  pc :: pc
  ops :: "chan_op list"

definition async :: "body \<Rightarrow> goroutine" where
  "async f = \<lparr>pc = Body f, ops = []\<rparr>"

text \<open>One step of the goroutine; \<open>recv\<close> tells whether a receiver is waiting on the channel.\<close>

fun step :: "bool \<Rightarrow> goroutine \<Rightarrow> goroutine" where
  "step recv g =
     (case pc g of
        Body None \<Rightarrow> g
      | Body (Some (Suc n, r)) \<Rightarrow> g\<lparr>pc := Body (Some (n, r))\<rparr>
      | Body (Some (0, Returns (Some err))) \<Rightarrow> g\<lparr>pc := AtSend err\<rparr>
      | Body (Some (0, Returns None)) \<Rightarrow> g\<lparr>pc := AtClose False\<rparr>
      | Body (Some (0, Panics)) \<Rightarrow> g\<lparr>pc := AtClose True\<rparr>
      | AtSend err \<Rightarrow> (if recv then g\<lparr>pc := AtClose False, ops := ops g @ [Send err]\<rparr> else g)
      | AtClose panicking \<Rightarrow> g\<lparr>pc := (if panicking then Crashed else Exited), ops := ops g @ [Close]\<rparr>
      | Exited \<Rightarrow> g
      | Crashed \<Rightarrow> g)"

text \<open>A run under a schedule: one entry per step.\<close>

fun exec :: "bool list \<Rightarrow> goroutine \<Rightarrow> goroutine" where
  "exec [] g = g"
| "exec (recv # sched) g = exec sched (step recv g)"

section \<open>Notions used in the statements\<close>

text \<open>
  Kinds of events, the targets on which the loader invokes a post-load hook, and the
  profiling mode that the development configuration selects, if any.
\<close>

fun isLoad :: "event \<Rightarrow> bool" where
  "isLoad (Load c ts) = True"
| "isLoad _ = False"

fun isHookCall :: "event \<Rightarrow> bool" where
  "isHookCall (HookCall k c args) = True"
| "isHookCall _ = False"


definition selected :: "world \<Rightarrow> profile_Mode option" where
  "selected w =
     (case Dev (Config (state (app w))) of
        None \<Rightarrow> None
      | Some dev \<Rightarrow>
          (case Profile dev of
             ProfileCPU \<Rightarrow> Some CPUProfile
           | ProfileMem \<Rightarrow> Some MemProfile
           | ProfileOther p \<Rightarrow> None))"

section \<open>Example inputs\<close>

text \<open>Concrete inputs on which the theorems below are evaluated.\<close>

definition example_config :: SetupConfig where
  "example_config =
     \<lparr>ID = \<lparr>Name = ''tool'', Version = ''1.2.3''\<rparr>,
      DefaultLoggingConfig = Some [(''level'', ''info'')],
      DefaultDevelopmentConfig = Some \<lparr>Profile = ProfileCPU\<rparr>,
      Initializers = [], postConstructs = [7, 3],
      FangsConfig = \<lparr>fangsLogger = None\<rparr>\<rparr>"

definition example_command :: Command where
  "example_command =
     \<lparr>Use = ''serve'', cmdVersion = [], versionTemplate = [], PreRunE = None,
      RunE = Some (UserRun 0), SilenceUsage = False, SilenceErrors = False\<rparr>"

definition example_world :: "SetupConfig \<Rightarrow> world" where
  "example_world cfg = \<lparr>app = New cfg, cmds = (\<lambda>c. example_command), trace = []\<rparr>"

text \<open>
  Collaborators for the examples: resource construction installs a logger, the sources
  leave the core configuration as it is, and the post-construct hook \<open>k\<close> adds an entry
  with \<open>k\<close> marks to the logging configuration in the state.
\<close>

definition example_deps :: deps where
  "example_deps =
     \<lparr>state_setup = (\<lambda>cfg s. (None, s\<lparr>Logger := Some (Sink 0)\<rparr>)),
      populateCore = (\<lambda>fc cmd c. Inr c),
      postLoadCore = None,
      coreStringer = (\<lambda>c. None),
      coreMarshal = (\<lambda>c. Inr ''{}''),
      appStringer = (\<lambda>a. None),
      appMarshal = (\<lambda>a. Inr ''{}''),
      indent_String = (\<lambda>pre s. pre @ s),
      Magenta_Sprint = (\<lambda>s. s),
      eventloop = (\<lambda>ctx log sub errs uis. Returns None),
      postConstruct = (\<lambda>k (a, h).
         (a\<lparr>state := (state a)\<lparr>Config := (Config (state a))
              \<lparr>Log := map_option (\<lambda>l. l @ [(''hook'', replicate k (CHR ''+''))])
                       (Log (Config (state a)))\<rparr>\<rparr>\<rparr>, h))\<rparr>"

text \<open>The same collaborators, with hooks that rename the root command instead.\<close>

definition renaming_deps :: deps where
  "renaming_deps =
     example_deps\<lparr>postConstruct := (\<lambda>k (a, h).
        (case root a of
           None \<Rightarrow> (a, h)
         | Some c \<Rightarrow> (a, h(c := (h c)\<lparr>Use := ''x''\<rparr>))))\<rparr>"

text \<open>
  Two initializers: one registers a redaction and succeeds, one fails; and a configuration
  whose chain runs the failing one second.
\<close>

definition redacting_init :: Initializer where
  "redacting_init s = (None, s\<lparr>RedactStore := map_option (\<lambda>vs. vs @ [''secret'']) (RedactStore s)\<rparr>)"

definition failing_init :: Initializer where
  "failing_init s = (Some (ErrorString ''boom''), s)"

definition failing_config :: SetupConfig where
  "failing_config = example_config\<lparr>Initializers := [redacting_init, failing_init, redacting_init]\<rparr>"


definition foo_object :: ConfigObject where
  "foo_object =
     \<lparr>ident = 2, unmarshal = None, postLoad = Some None, stringer = None,
      marshal = Inr (''foo: bar'' @ [newline])\<rparr>"

text \<open>
  Three more objects: one whose \<^verbatim>\<open>String()\<close> is \<^verbatim>\<open>name: x\<close> between white space (a space, a
  tab and U+00A0 before, a space and a line feed after) and whose YAML is \<^verbatim>\<open>{}\<close>; one whose
  \<^verbatim>\<open>String()\<close> is \<^verbatim>\<open>{}\<close> between spaces and whose YAML is not empty; and one that has no
  \<^verbatim>\<open>String()\<close> and cannot be serialized.
\<close>

definition padded_object :: ConfigObject where
  "padded_object =
     \<lparr>ident = 3, unmarshal = None, postLoad = None,
      stringer = Some ([CHR 0x20, CHR 0x09, CHR 0xC2, CHR 0xA0] @ ''name: x'' @ [CHR 0x20, newline]),
      marshal = Inr (''{}'' @ [newline])\<rparr>"

definition braces_object :: ConfigObject where
  "braces_object =
     \<lparr>ident = 4, unmarshal = None, postLoad = None, stringer = Some ''  {} '',
      marshal = Inr (''hidden: yes'' @ [newline])\<rparr>"

definition broken_object :: ConfigObject where
  "broken_object =
     \<lparr>ident = 5, unmarshal = None, postLoad = None, stringer = None,
      marshal = Inl (ErrorString ''cannot marshal'')\<rparr>"

definition example_hook :: PreRunFn where
  "example_hook = UserPreRun 5 (\<lambda>cmd args. if args = [] then Some (ErrorString ''no arguments'') else None)"

section \<open>The load list and the loader's events\<close>

lemma nonNil_loop_filter: "nonNil_loop a ret = ret @ filter (\<lambda>v. v \<noteq> None) a"
  by (induction a arbitrary: ret) auto

lemma nonNil_filter: "nonNil a = filter (\<lambda>v. v \<noteq> None) a"
  by (simp add: nonNil_def nonNil_loop_filter)

lemma postLoads_isLog:
  "filter isLog (trace (snd (postLoads D ts w))) = filter isLog (trace w)"
  by (induction D ts w rule: postLoads.induct)
     (simp_all add: Let_def split: option.splits prod.splits)

lemma postLoads_isLoad:
  "filter isLoad (trace (snd (postLoads D ts w))) = filter isLoad (trace w)"
  by (induction D ts w rule: postLoads.induct)
     (simp_all add: Let_def split: option.splits prod.splits)

lemma postLoads_isHookCall:
  "filter isHookCall (trace (snd (postLoads D ts w))) = filter isHookCall (trace w)"
  by (induction D ts w rule: postLoads.induct)
     (simp_all add: Let_def split: option.splits prod.splits)

lemma postLoads_prefix:
  "prefix (trace w) (trace (snd (postLoads D ts w)))"
proof (induction ts arbitrary: w)
  case Nil
  show ?case by simp
next
  case (Cons t ts)
  have step: "\<And>a e. prefix (trace w) (trace (snd (postLoads D ts (w\<lparr>app := a, trace := trace w @ [e]\<rparr>))))"
  proof -
    fix a e
    have "prefix (trace w @ [e]) (trace (snd (postLoads D ts (w\<lparr>app := a, trace := trace w @ [e]\<rparr>))))"
      using Cons.IH[of "w\<lparr>app := a, trace := trace w @ [e]\<rparr>"] by simp
    then show "prefix (trace w) (trace (snd (postLoads D ts (w\<lparr>app := a, trace := trace w @ [e]\<rparr>))))"
      by (rule append_prefixD)
  qed
  have step': "\<And>e. prefix (trace w) (trace (snd (postLoads D ts (w\<lparr>trace := trace w @ [e]\<rparr>))))"
    using step[where a = "app w"] by simp
  show ?case
  proof (cases t)
    case None
    then show ?thesis using Cons.IH by simp
  next
    case (Some v)
    then show ?thesis
      using Cons.IH[of w] step step'
      by (cases v) (simp_all add: Let_def split: option.splits prod.splits)
  qed
qed


lemma fangs_Load_trace:
  "\<exists>tr. trace (snd (fangs_Load D fc cmd ts w)) = trace w @ Load cmd ts # tr \<and>
        filter isLoad tr = [] \<and> filter isLog tr = [] \<and> filter isHookCall tr = []"
proof -
  obtain r a where p: "populate D fc cmd ts (app w) = (r, a)"
    by (cases "populate D fc cmd ts (app w)")
  define w0 where "w0 = w\<lparr>trace := trace w @ [Load cmd ts], app := a\<rparr>"
  show ?thesis
  proof (cases r)
    case (Some err)
    with p show ?thesis by (simp add: fangs_Load_def Let_def)
  next
    case None
    from postLoads_prefix[of w0 D ts] obtain tr
      where tr: "trace (snd (postLoads D ts w0)) = trace w0 @ tr"
      by (auto simp: prefix_def)
    from postLoads_isLoad[of D ts w0] tr have 1: "filter isLoad tr = []" by simp
    from postLoads_isLog[of D ts w0] tr have 2: "filter isLog tr = []" by simp
    from postLoads_isHookCall[of D ts w0] tr have 3: "filter isHookCall tr = []" by simp
    from p None tr 1 2 3 show ?thesis
      by (simp add: fangs_Load_def Let_def w0_def)
  qed
qed


text \<open>
  Claim C6. \<^verbatim>\<open>loadConfigs\<close> calls the configuration loader once, with the command and
  the list made of the core configuration, then the application itself when resources
  are enabled, then the caller's configurations in their order, without the nil entries
  and with the remaining entries in the same order.
\<close>

theorem loadConfigs_targets:
  "\<exists>tr. trace (snd (loadConfigs D cmd withResources cfgs w)) =
          trace w @ Load cmd (filter (\<lambda>v. v \<noteq> None)
                       (Some CoreConfigPtr # (if withResources then [Some AppPtr] else []) @ cfgs)) # tr \<and>
        filter isLoad tr = []"
proof -
  define L where "L = filter (\<lambda>v. v \<noteq> None)
                       (Some CoreConfigPtr # (if withResources then [Some AppPtr] else []) @ cfgs)"
  from fangs_Load_trace[of D "FangsConfig (setupConfig (app w))" cmd L w]
  obtain tr where "trace (snd (fangs_Load D (FangsConfig (setupConfig (app w))) cmd L w)) = trace w @ Load cmd L # tr"
     "filter isLoad tr = []" by blast
  then show ?thesis
    unfolding L_def
    by (auto simp: loadConfigs_def Let_def nonNil_filter split: prod.splits option.splits)
qed

section \<open>The version record\<close>

lemma doPrintf_literal: "CHR ''%'' \<notin> set format \<Longrightarrow> doPrintf format [] = Some format"
  by (induction format) auto

lemma Sprintf_version_line:
  "Sprintf ''%s version: %+v'' [n, v] = Some (n @ '' version: '' @ v)"
  by (simp add: Sprintf_def)

lemma logVersion_plain_name:
  "Version (ID cfg) = [] \<Longrightarrow> CHR ''%'' \<notin> set (Name (ID cfg)) \<Longrightarrow>
   logVersion cfg (Some l) tr = (Returns (), tr @ [Logf l InfoLevel (Name (ID cfg)) []]) \<and>
   message (Logf l InfoLevel (Name (ID cfg)) []) = Some (Name (ID cfg))"
  by (simp add: logVersion_def Infof_def Sprintf_def doPrintf_literal)

lemma logVersion_with_version:
  "Version (ID cfg) \<noteq> [] \<Longrightarrow>
   logVersion cfg (Some l) tr =
     (Returns (), tr @ [Logf l InfoLevel ''%s version: %+v'' [Name (ID cfg), Version (ID cfg)]]) \<and>
   message (Logf l InfoLevel ''%s version: %+v'' [Name (ID cfg), Version (ID cfg)]) =
     Some (Name (ID cfg) @ '' version: '' @ Version (ID cfg))"
  by (simp add: logVersion_def Infof_def Sprintf_version_line)

text \<open>
  Claim C7. With an empty version the application name is handed to \<^verbatim>\<open>Infof\<close> as the
  format, so the record is the name only when the name holds no \<^verbatim>\<open>%\<close>
  (\<open>logVersion_plain_name\<close>); with a version the record is the name, \<^verbatim>\<open> version: \<close> and the
  version (\<open>logVersion_with_version\<close>). For the name \<^verbatim>\<open>100%\<close> and an empty version the
  record is \<^verbatim>\<open>100%!(NOVERB)\<close>, not the name.
\<close>

theorem logVersion_percent_name:
  "logVersion \<lparr>ID = \<lparr>Name = ''100%'', Version = []\<rparr>, DefaultLoggingConfig = None,
               DefaultDevelopmentConfig = None, Initializers = [], postConstructs = [],
               FangsConfig = \<lparr>fangsLogger = None\<rparr>\<rparr> (Some (Sink 0)) []
     = (Returns (), [Logf (Sink 0) InfoLevel ''100%'' []]) \<and>
   message (Logf (Sink 0) InfoLevel ''100%'' []) = Some ''100%!(NOVERB)'' \<and>
   message (Logf (Sink 0) InfoLevel ''100%'' []) \<noteq> Some ''100%''"
  by (simp add: logVersion_def Infof_def Sprintf_def)

section \<open>The configuration record\<close>




section \<open>Profiling around the event loop\<close>

text \<open>
  Claim C5. The events of \<^verbatim>\<open>run\<close> are: the start of a profiling session when the
  development configuration is non-nil and selects CPU or memory profiling (\<open>selected\<close>),
  then the call of the event loop, then the session's stop, once. The stop is there
  whatever the event loop returns (nil, an error, a panic) and also when the nil logger
  makes \<^verbatim>\<open>run\<close> panic before the event loop is called. With a nil development
  configuration or any other profile value no session is started or stopped.
\<close>

theorem run_profiling:
  "trace (snd (run D ctx errs w)) =
     trace w
     @ (case selected w of None \<Rightarrow> [] | Some m \<Rightarrow> [ProfileStart m])
     @ (case Logger (state (app w)) of
          None \<Rightarrow> []
        | Some l \<Rightarrow> [EventLoop ctx (Nested l ''component'' ''eventloop'')
                       (Subscription (state (app w))) errs (UIs (state (app w)))])
     @ (case selected w of None \<Rightarrow> [] | Some m \<Rightarrow> [ProfileStop m]) \<and>
   fst (run D ctx errs w) =
     (case Logger (state (app w)) of
        None \<Rightarrow> Panics
      | Some l \<Rightarrow> eventloop D ctx (Nested l ''component'' ''eventloop'')
                    (Subscription (state (app w))) errs (UIs (state (app w))))"
  by (simp add: run_def selected_def Let_def split: option.splits Profile.splits)

section \<open>Setup: loading before logging\<close>




lemma logConfiguration_None: "logConfiguration ind mag str mar None cfgs tr = (Panics, tr)"
  by (simp add: logConfiguration_def Debugf_def Debug_def Let_def)


lemma fangs_Load_isHookCall:
  "filter isHookCall (trace (snd (fangs_Load D fc cmd ts w))) = filter isHookCall (trace w)"
  using fangs_Load_trace[of D fc cmd ts w] by auto



lemma Setup_isHookCall:
  "filter isHookCall (trace (snd (Setup D cfgs cmd args w))) = filter isHookCall (trace w)"
proof -
  define L where "L = nonNil ([Some CoreConfigPtr] @ [Some AppPtr] @ cfgs)"
  define fc where "fc = FangsConfig (setupConfig (app w))"
  obtain r w1 where ld: "fangs_Load D fc cmd L w = (r, w1)"
    by (cases "fangs_Load D fc cmd L w")
  have hk: "filter isHookCall (trace w1) = filter isHookCall (trace w)"
    using fangs_Load_isHookCall[of D fc cmd L w] ld by simp
  show ?thesis
    using ld hk
    by (auto simp: Setup_def loadConfigs_def Let_def L_def fc_def logVersion_def Infof_def
          logConfiguration_def Debugf_def Debug_def split: option.splits)
qed

section \<open>Binding a command\<close>

lemma setupCommand_cmds:
  "cmds (snd (setupCommand D c fl (PreRunE_of c) cfgs w)) c =
     (cmds w c)\<lparr>PreRunE := Some (SetupThen cfgs (PreRunE (cmds w c))),
               RunE := map_option Run (RunE (cmds w c)),
               SilenceUsage := True, SilenceErrors := True\<rparr>"
  by (simp add: setupCommand_def load_fn_def store_fn_def fangs_AddFlags_def Let_def
        split: option.splits)

lemma setupCommand_other:
  "c' \<noteq> c \<Longrightarrow> cmds (snd (setupCommand D c fl (PreRunE_of c) cfgs w)) c' = cmds w c'"
  by (simp add: setupCommand_def load_fn_def store_fn_def fangs_AddFlags_def Let_def
        split: option.splits)


lemma SetupRootCommand_binds:
  "\<exists>v. SetupRootCommand D c cfgs w = SetupCommand D c cfgs v"
  by (auto simp: SetupRootCommand_def setupRootCommand_def SetupCommand_def Let_def)

text \<open>
  Claim C10. Binding wraps the execution hook with \<^verbatim>\<open>Run\<close>, the async execution bridge,
  exactly when the hook is non-nil at binding time: a nil \<^verbatim>\<open>RunE\<close> stays nil, a hook \<open>f\<close>
  becomes \<open>AppRun f\<close>. In both cases the pre-execution hook is replaced by the closure over
  \<^verbatim>\<open>cfgs\<close> and the previous hook, and usage and error printing are silenced.
  \<^verbatim>\<open>SetupRootCommand\<close> ends with the same binding, performed in the world \<open>v\<close> that its
  own preparation and the post-construct hooks have produced.
\<close>

theorem setupCommand_RunE:
  "RunE (cmds (snd (SetupCommand D c cfgs w)) c) = map_option AppRun (RunE (cmds w c)) \<and>
   PreRunE (cmds (snd (SetupCommand D c cfgs w)) c) = Some (SetupThen cfgs (PreRunE (cmds w c))) \<and>
   SilenceUsage (cmds (snd (SetupCommand D c cfgs w)) c) \<and>
   SilenceErrors (cmds (snd (SetupCommand D c cfgs w)) c) \<and>
   (\<exists>v. SetupRootCommand D c cfgs w = SetupCommand D c cfgs v)"
  using SetupRootCommand_binds[of D c cfgs w]
  by (simp add: SetupCommand_def setupCommand_cmds Run_def[abs_def])

text \<open>
  Claim C3. After binding, the command's pre-execution hook is a function \<open>h\<close> that first
  runs \<^verbatim>\<open>Setup\<close> with the bound configurations. When \<^verbatim>\<open>Setup\<close> returns nil, \<open>h\<close> goes on
  with the hook that was there before binding, on the same command and arguments and in
  the world \<^verbatim>\<open>Setup\<close> left, or returns nil when there was none. When \<^verbatim>\<open>Setup\<close> returns
  an error (or panics), that is the result of \<open>h\<close> and the world is the one \<^verbatim>\<open>Setup\<close>
  left: the previous hook is not invoked. \<^verbatim>\<open>Setup\<close> itself never invokes a command hook;
  invoking a caller's hook is recorded with the command and arguments it receives.
  \<^verbatim>\<open>SetupRootCommand\<close> ends with the same binding.
\<close>

theorem bound_PreRunE:
  "(\<exists>h. PreRunE (cmds (snd (SetupCommand D c cfgs w)) c) = Some h \<and>
        (\<forall>cmd args u.
           (case Setup D cfgs cmd args u of
              (Returns None, u') \<Rightarrow>
                callPreRunE D h cmd args u =
                  (case PreRunE (cmds w c) of
                     Some orig \<Rightarrow> callPreRunE D orig cmd args u'
                   | None \<Rightarrow> (Returns None, u')) \<and>
                filter isHookCall (trace u') = filter isHookCall (trace u)
            | (r, u') \<Rightarrow>
                callPreRunE D h cmd args u = (r, u') \<and>
                filter isHookCall (trace u') = filter isHookCall (trace u)))) \<and>
   (\<forall>k body cmd args u.
      callPreRunE D (UserPreRun k body) cmd args u =
        (Returns (body cmd args), u\<lparr>trace := trace u @ [HookCall k cmd args]\<rparr>)) \<and>
   (\<exists>v. SetupRootCommand D c cfgs w = SetupCommand D c cfgs v)"
proof -
  have "\<And>cmd args u.
           (case Setup D cfgs cmd args u of
              (Returns None, u') \<Rightarrow>
                callPreRunE D (SetupThen cfgs (PreRunE (cmds w c))) cmd args u =
                  (case PreRunE (cmds w c) of
                     Some orig \<Rightarrow> callPreRunE D orig cmd args u'
                   | None \<Rightarrow> (Returns None, u')) \<and>
                filter isHookCall (trace u') = filter isHookCall (trace u)
            | (r, u') \<Rightarrow>
                callPreRunE D (SetupThen cfgs (PreRunE (cmds w c))) cmd args u = (r, u') \<and>
                filter isHookCall (trace u') = filter isHookCall (trace u))"
  proof -
    fix cmd args u
    obtain r u' where s: "Setup D cfgs cmd args u = (r, u')"
      by (cases "Setup D cfgs cmd args u")
    have "filter isHookCall (trace u') = filter isHookCall (trace u)"
      using Setup_isHookCall[of D cfgs cmd args u] s by simp
    then show "?thesis cmd args u"
      using s by (simp split: result.splits option.splits)
  qed
  then show ?thesis
    using SetupRootCommand_binds[of D c cfgs w]
    by (simp add: SetupCommand_def setupCommand_cmds)
qed

section \<open>Binding the root command\<close>







section \<open>The goroutine of the async execution bridge\<close>

lemma exec_Exited: "pc g = Exited \<Longrightarrow> exec rs g = g"
  by (induction rs) simp_all

lemma exec_Crashed: "pc g = Crashed \<Longrightarrow> exec rs g = g"
  by (induction rs) simp_all

lemma exec_AtClose:
  "exec rs \<lparr>pc = AtClose b, ops = os\<rparr> =
     (if rs = [] then \<lparr>pc = AtClose b, ops = os\<rparr>
      else \<lparr>pc = (if b then Crashed else Exited), ops = os @ [Close]\<rparr>)"
  by (cases rs) (simp_all add: exec_Exited exec_Crashed)

lemma exec_AtSend:
  "ops (exec rs \<lparr>pc = AtSend err, ops = os\<rparr>) =
     os @ (case dropWhile Not rs of [] \<Rightarrow> [] | [t] \<Rightarrow> [Send err] | t # t' # ts \<Rightarrow> [Send err, Close])"
proof (induction rs)
  case Nil
  show ?case by simp
next
  case (Cons r rs)
  show ?case
  proof (cases r)
    case True
    then show ?thesis by (cases rs) (simp_all add: exec_AtClose)
  next
    case False
    then show ?thesis using Cons.IH by simp
  qed
qed

lemma exec_Body:
  "exec rs \<lparr>pc = Body (Some (n, r)), ops = os\<rparr> =
     (if length rs \<le> n then \<lparr>pc = Body (Some (n - length rs, r)), ops = os\<rparr>
      else exec (drop (Suc n) rs)
             \<lparr>pc = (case r of Returns (Some err) \<Rightarrow> AtSend err
                             | Returns None \<Rightarrow> AtClose False
                             | Panics \<Rightarrow> AtClose True),
              ops = os\<rparr>)"
proof (induction n arbitrary: rs)
  case 0
  show ?case by (cases rs) (simp_all split: result.splits option.splits)
next
  case (Suc n)
  show ?case by (cases rs) (simp_all add: Suc.IH)
qed

lemma exec_Body_forever: "exec rs \<lparr>pc = Body None, ops = os\<rparr> = \<lparr>pc = Body None, ops = os\<rparr>"
  by (induction rs) simp_all

text \<open>
  Claim C4, as amended. Under every schedule: no channel operation completes before the
  body has ended; when the body returns nil, the channel is closed, once, with nothing
  sent; when the body returns an error, the goroutine waits in the send until a receiver
  is there, then the error is the one value sent and the close follows it, once; while no
  receiver takes the error, nothing is sent and the channel is not closed. A body that
  never returns leaves the channel untouched.
\<close>

theorem async_channel:
  "ops (exec rs (async (Some (n, Returns None)))) = (if n + 2 \<le> length rs then [Close] else []) \<and>
   ops (exec rs (async (Some (n, Returns (Some err))))) =
     (case dropWhile Not (drop (Suc n) rs) of
        [] \<Rightarrow> []
      | [t] \<Rightarrow> [Send err]
      | t # t' # ts \<Rightarrow> [Send err, Close]) \<and>
   ops (exec (take (Suc n) rs) (async (Some (n, r)))) = [] \<and>
   ops (exec rs (async None)) = []"
proof -
  have 1: "ops (exec rs (async (Some (n, Returns None)))) = (if n + 2 \<le> length rs then [Close] else [])"
    by (auto simp: async_def exec_Body exec_AtClose)
  have 2: "ops (exec rs (async (Some (n, Returns (Some err))))) =
     (case dropWhile Not (drop (Suc n) rs) of
        [] \<Rightarrow> []
      | [t] \<Rightarrow> [Send err]
      | t # t' # ts \<Rightarrow> [Send err, Close])"
    by (simp add: async_def exec_Body exec_AtSend)
  have 3: "ops (exec (take (Suc n) rs) (async (Some (n, r)))) = []"
    by (simp add: async_def exec_Body min_def split: result.splits option.splits)
  have 4: "ops (exec rs (async None)) = []"
    by (simp add: async_def exec_Body_forever)
  from 1 2 3 4 show ?thesis by blast
qed

text \<open>
  Claim C4 as stated fails: the body has returned an error, no receiver comes, and after
  any number of further steps the goroutine is still blocked in the send and the channel
  is not closed.
\<close>

theorem async_blocked_send:
  "pc (exec [False, False, False, False] (async (Some (0, Returns (Some (ErrorString ''boom''))))))
     = AtSend (ErrorString ''boom'') \<and>
   ops (exec [False, False, False, False] (async (Some (0, Returns (Some (ErrorString ''boom''))))))
     = [] \<and>
   Close \<notin> set (ops (exec [False, False, False, False]
                        (async (Some (0, Returns (Some (ErrorString ''boom'')))))))"
  by (simp add: async_def)

section \<open>The initializer chain\<close>

lemma runInitializers_loop_append:
  "runInitializers_loop (xs @ ys) s =
     (case runInitializers_loop xs s of
        (Some err, s') \<Rightarrow> (Some err, s')
      | (None, s') \<Rightarrow> runInitializers_loop ys s')"
  by (induction xs arbitrary: s) (simp_all split: prod.splits option.splits)

lemma runInitializers_loop_first_failure:
  "runInitializers_loop pre s = (None, s1) \<Longrightarrow> f s1 = (Some err, s2) \<Longrightarrow>
   runInitializers_loop (pre @ f # post) s = (Some err, s2)"
  by (simp add: runInitializers_loop_append)

lemma postLoads_Cons:
  "postLoads D [t] w = (None, w1) \<Longrightarrow> postLoads D (t # ts) w = postLoads D ts w1"
proof (cases t)
  case None
  then show "postLoads D [t] w = (None, w1) \<Longrightarrow> ?thesis" by simp
next
  case (Some v)
  then show "postLoads D [t] w = (None, w1) \<Longrightarrow> ?thesis"
    by (cases v) (auto simp: Let_def split: option.splits prod.splits)
qed

lemma Setup_failing_initializer:
  assumes L: "L = nonNil (Some CoreConfigPtr # Some AppPtr # cfgs)"
    and P1: "populate D (FangsConfig (setupConfig (app w))) cmd L (app w) = (None, a0)"
    and P2: "postLoads D [Some CoreConfigPtr] (w\<lparr>trace := trace w @ [Load cmd L], app := a0\<rparr>) = (None, w1)"
    and P3: "state_setup D (setupConfig (app w1)) (state (app w1)) = (None, s)"
    and P4: "Initializers (setupConfig (app w1)) = pre @ f # post"
    and P5: "runInitializers_loop pre s = (None, s1)"
    and P6: "f s1 = (Some err, s2)"
  shows "runInitializers_loop (pre @ f # post) s = (Some err, s2) \<and>
         PostLoad D (app w1) = (Some err, (app w1)\<lparr>state := s2\<rparr>) \<and>
         Setup D cfgs cmd args w =
           (Returns (Some (ErrorString (''invalid application config: '' @ Error err))),
            w1\<lparr>app := (app w1)\<lparr>state := s2\<rparr>, trace := trace w1 @ [PostLoadCall AppPtr]\<rparr>)"
proof -
  have chain: "runInitializers_loop (pre @ f # post) s = (Some err, s2)"
    using P5 P6 by (rule runInitializers_loop_first_failure)
  have pl: "PostLoad D (app w1) = (Some err, (app w1)\<lparr>state := s2\<rparr>)"
    using P3 P4 chain by (simp add: PostLoad_def runInitializers_def)
  obtain ts where ts: "L = Some CoreConfigPtr # Some AppPtr # ts"
    using L by (simp add: nonNil_filter)
  have "postLoads D L (w\<lparr>trace := trace w @ [Load cmd L], app := a0\<rparr>) =
          postLoads D (Some AppPtr # ts) w1"
    unfolding ts using P2[unfolded ts] by (rule postLoads_Cons)
  also have "\<dots> = (Some err, w1\<lparr>app := (app w1)\<lparr>state := s2\<rparr>, trace := trace w1 @ [PostLoadCall AppPtr]\<rparr>)"
    using pl by (simp add: Let_def)
  finally have "fangs_Load D (FangsConfig (setupConfig (app w))) cmd L w =
      (Some err, w1\<lparr>app := (app w1)\<lparr>state := s2\<rparr>, trace := trace w1 @ [PostLoadCall AppPtr]\<rparr>)"
    using P1 by (simp add: fangs_Load_def Let_def)
  then have "Setup D cfgs cmd args w =
           (Returns (Some (ErrorString (''invalid application config: '' @ Error err))),
            w1\<lparr>app := (app w1)\<lparr>state := s2\<rparr>, trace := trace w1 @ [PostLoadCall AppPtr]\<rparr>)"
    using L by (simp add: Setup_def loadConfigs_def Let_def Errorf_v_def)
  with chain pl show ?thesis by blast
qed

text \<open>
  Claim C1 as stated fails in its last part: with a chain whose second initializer
  fails with \<^verbatim>\<open>boom\<close>, \<^verbatim>\<open>runInitializers\<close> returns that error, and \<^verbatim>\<open>Setup\<close> returns another
  error, with the message \<^verbatim>\<open>invalid application config: boom\<close>.
\<close>

theorem Setup_wraps_initializer_error:
  "fst (Setup example_deps [] 0 [] (example_world failing_config)) =
     Returns (Some (ErrorString ''invalid application config: boom'')) \<and>
   fst (Setup example_deps [] 0 [] (example_world failing_config)) \<noteq>
     Returns (Some (ErrorString ''boom'')) \<and>
   fst (runInitializers (New failing_config)) = Some (ErrorString ''boom'')"
  by (simp add: Setup_def loadConfigs_def nonNil_def fangs_Load_def PostLoad_def runInitializers_def
        Let_def Errorf_v_def example_world_def failing_config_def example_config_def example_deps_def
        New_def redacting_init_def failing_init_def)

text \<open>
  Claim C1, as amended. When the load reaches the application's post-load hook (the
  targets are populated, the core configuration's own hook, if any, succeeds, and the
  resources are constructed), and the chain's initializers before \<open>f\<close> succeed and \<open>f\<close>
  fails with \<open>err\<close>: the chain stops at \<open>f\<close> with \<open>err\<close> itself and the state \<open>f\<close> left, so
  that no later initializer has run; \<^verbatim>\<open>PostLoad\<close> returns \<open>err\<close> itself; and \<^verbatim>\<open>Setup\<close>
  returns a new error whose message is \<^verbatim>\<open>invalid application config: \<close> followed by the
  message of \<open>err\<close>, after the loader's call and the hook's invocation and nothing else.
\<close>

theorem initializer_failure:
  assumes "L = nonNil (Some CoreConfigPtr # Some AppPtr # cfgs)"
    and "populate D (FangsConfig (setupConfig (app w))) cmd L (app w) = (None, a0)"
    and "postLoads D [Some CoreConfigPtr] (w\<lparr>trace := trace w @ [Load cmd L], app := a0\<rparr>) = (None, w1)"
    and "state_setup D (setupConfig (app w1)) (state (app w1)) = (None, s)"
    and "Initializers (setupConfig (app w1)) = pre @ f # post"
    and "runInitializers_loop pre s = (None, s1)"
    and "f s1 = (Some err, s2)"
  shows "runInitializers_loop (pre @ f # post) s = (Some err, s2) \<and>
         PostLoad D (app w1) = (Some err, (app w1)\<lparr>state := s2\<rparr>) \<and>
         Setup D cfgs cmd args w =
           (Returns (Some (ErrorString (''invalid application config: '' @ Error err))),
            w1\<lparr>app := (app w1)\<lparr>state := s2\<rparr>, trace := trace w1 @ [PostLoadCall AppPtr]\<rparr>)"
  using assms by (rule Setup_failing_initializer)

theorem initializer_failure_witness:
  "runInitializers_loop ([redacting_init] @ failing_init # [redacting_init])
       ((state (New failing_config))\<lparr>Logger := Some (Sink 0)\<rparr>) =
     (Some (ErrorString ''boom''),
      (state (New failing_config))\<lparr>Logger := Some (Sink 0), RedactStore := Some [''secret'']\<rparr>) \<and>
   fst (Setup example_deps [] 0 [] (example_world failing_config)) =
     Returns (Some (ErrorString ''invalid application config: boom'')) \<and>
   RedactStore (state (app (snd (Setup example_deps [] 0 [] (example_world failing_config))))) =
     Some [''secret''] \<and>
   trace (snd (Setup example_deps [] 0 [] (example_world failing_config))) =
     [Load 0 [Some CoreConfigPtr, Some AppPtr], PostLoadCall AppPtr]"
proof -
  let ?w = "example_world failing_config"
  let ?L = "[Some CoreConfigPtr, Some AppPtr]"
  let ?w1 = "?w\<lparr>trace := trace ?w @ [Load 0 ?L], app := app ?w\<rparr>"
  let ?s = "(state (New failing_config))\<lparr>Logger := Some (Sink 0)\<rparr>"
  let ?s1 = "(state (New failing_config))\<lparr>Logger := Some (Sink 0), RedactStore := Some [''secret'']\<rparr>"
  have 1: "?L = nonNil (Some CoreConfigPtr # Some AppPtr # [])"
    by (simp add: nonNil_def)
  have 2: "populate example_deps (FangsConfig (setupConfig (app ?w))) 0 ?L (app ?w) = (None, app ?w)"
    by (simp add: example_deps_def example_world_def New_def)
  have 3: "postLoads example_deps [Some CoreConfigPtr] ?w1 = (None, ?w1)"
    by (simp add: example_deps_def)
  have 4: "state_setup example_deps (setupConfig (app ?w1)) (state (app ?w1)) = (None, ?s)"
    by (simp add: example_deps_def example_world_def)
  have 5: "Initializers (setupConfig (app ?w1)) = [redacting_init] @ failing_init # [redacting_init]"
    by (simp add: example_world_def New_def failing_config_def)
  have 6: "runInitializers_loop [redacting_init] ?s = (None, ?s1)"
    by (simp add: redacting_init_def New_def)
  have 7: "failing_init ?s1 = (Some (ErrorString ''boom''), ?s1)"
    by (simp add: failing_init_def)
  from initializer_failure[OF 1 2 3 4 5 6 7, of "[]"]
  show ?thesis
    by (simp add: example_world_def)
qed

section \<open>Evaluation on the example inputs\<close>

lemma TrimSpace_examples:
  "TrimSpace [CHR ''{'', CHR ''}'', newline] = ''{}''"
  "TrimSpace [CHR ''f'', CHR ''o'', CHR ''o'', CHR '':'', CHR '' '', CHR ''b'', CHR ''a'', CHR ''r'', newline]
     = ''foo: bar''"
  by code_simp+


theorem run_profiling_witness:
  "trace (snd (run example_deps 0 1
      ((example_world example_config)\<lparr>app := (New example_config)\<lparr>state :=
          (state (New example_config))\<lparr>Config := \<lparr>Log = None, Dev = Some \<lparr>Profile = ProfileCPU\<rparr>, FromCommands = []\<rparr>,
                                        Logger := Some (Sink 0)\<rparr>\<rparr>\<rparr>))) =
     [ProfileStart CPUProfile,
      EventLoop 0 (Nested (Sink 0) ''component'' ''eventloop'') None 1 [],
      ProfileStop CPUProfile] \<and>
   trace (snd (run example_deps 0 1
      ((example_world example_config)\<lparr>app := (New example_config)\<lparr>state :=
          (state (New example_config))\<lparr>Config := \<lparr>Log = None, Dev = Some \<lparr>Profile = ProfileMem\<rparr>, FromCommands = []\<rparr>\<rparr>\<rparr>\<rparr>))) =
     [ProfileStart MemProfile, ProfileStop MemProfile] \<and>
   trace (snd (run example_deps 0 1 (example_world example_config))) = []"
  using run_profiling[of example_deps 0 1 "(example_world example_config)\<lparr>app := (New example_config)\<lparr>state :=
          (state (New example_config))\<lparr>Config := \<lparr>Log = None, Dev = Some \<lparr>Profile = ProfileCPU\<rparr>, FromCommands = []\<rparr>,
                                        Logger := Some (Sink 0)\<rparr>\<rparr>\<rparr>"]
        run_profiling[of example_deps 0 1 "(example_world example_config)\<lparr>app := (New example_config)\<lparr>state :=
          (state (New example_config))\<lparr>Config := \<lparr>Log = None, Dev = Some \<lparr>Profile = ProfileMem\<rparr>, FromCommands = []\<rparr>\<rparr>\<rparr>\<rparr>"]
        run_profiling[of example_deps 0 1 "example_world example_config"]
  by (simp add: selected_def example_world_def New_def)

lemma TrimSpace_braces: "TrimSpace ''{}'' = ''{}''"
  by code_simp

lemma Setup_example:
  "Setup example_deps [None, Some (ObjectPtr foo_object)] 0 args (example_world example_config) =
     (Returns None,
      (example_world example_config)
        \<lparr>trace := [Load 0 [Some CoreConfigPtr, Some AppPtr, Some (ObjectPtr foo_object)]],
         app := (New example_config)\<lparr>state := (state (New example_config))\<lparr>Logger := Some (Sink 0)\<rparr>\<rparr>,
         trace := [Load 0 [Some CoreConfigPtr, Some AppPtr, Some (ObjectPtr foo_object)],
                   PostLoadCall AppPtr, PostLoadCall (ObjectPtr foo_object)],
         trace := [Load 0 [Some CoreConfigPtr, Some AppPtr, Some (ObjectPtr foo_object)],
                   PostLoadCall AppPtr, PostLoadCall (ObjectPtr foo_object),
                   Logf (Sink 0) InfoLevel ''%s version: %+v'' [''tool'', ''1.2.3''],
                   Logf (Sink 0) DebugLevel (''config:'' @ [newline] @ ''%+v'') [''  foo: bar'']]\<rparr>)"
  by (simp add: Setup_def loadConfigs_def nonNil_def fangs_Load_def PostLoad_def runInitializers_def
        logVersion_def Infof_def logConfiguration_def Debugf_def render_def Let_def
        example_world_def example_config_def example_deps_def New_def foo_object_def
        TrimSpace_examples TrimSpace_braces)


theorem loadConfigs_targets_witness:
  "trace (snd (loadConfigs example_deps 0 True [None, Some (ObjectPtr foo_object), None]
                 (example_world example_config))) =
     [Load 0 [Some CoreConfigPtr, Some AppPtr, Some (ObjectPtr foo_object)],
      PostLoadCall AppPtr, PostLoadCall (ObjectPtr foo_object)] \<and>
   hd (trace (snd (loadConfigs example_deps 0 False [None, Some (ObjectPtr foo_object), None]
                 (example_world example_config)))) =
     Load 0 [Some CoreConfigPtr, Some (ObjectPtr foo_object)]"
proof -
  have t: "trace (example_world example_config) = []"
    by (simp add: example_world_def)
  have 1: "trace (snd (loadConfigs example_deps 0 True [None, Some (ObjectPtr foo_object), None]
                 (example_world example_config))) =
     [Load 0 [Some CoreConfigPtr, Some AppPtr, Some (ObjectPtr foo_object)],
      PostLoadCall AppPtr, PostLoadCall (ObjectPtr foo_object)]"
    by (simp add: loadConfigs_def nonNil_def fangs_Load_def PostLoad_def runInitializers_def Let_def
          example_world_def example_config_def example_deps_def New_def foo_object_def)
  from loadConfigs_targets[where D = example_deps and cmd = 0 and withResources = False
         and cfgs = "[None, Some (ObjectPtr foo_object), None]" and w = "example_world example_config"] t
  have 2: "hd (trace (snd (loadConfigs example_deps 0 False [None, Some (ObjectPtr foo_object), None]
                 (example_world example_config)))) =
     Load 0 [Some CoreConfigPtr, Some (ObjectPtr foo_object)]"
    by auto
  from 1 2 show ?thesis by simp
qed

lemma Setup_failing_example:
  "Setup example_deps [] 0 args (example_world failing_config) =
     (Returns (Some (ErrorString ''invalid application config: boom'')),
      (example_world failing_config)
        \<lparr>trace := [Load 0 [Some CoreConfigPtr, Some AppPtr]],
         app := (New failing_config)\<lparr>state := (state (New failing_config))
                   \<lparr>Logger := Some (Sink 0), RedactStore := Some [''secret'']\<rparr>\<rparr>,
         trace := [Load 0 [Some CoreConfigPtr, Some AppPtr], PostLoadCall AppPtr]\<rparr>)"
  by (simp add: Setup_def loadConfigs_def nonNil_def fangs_Load_def PostLoad_def runInitializers_def
        Let_def Errorf_v_def example_world_def failing_config_def example_config_def example_deps_def
        New_def redacting_init_def failing_init_def)

theorem bound_PreRunE_witness:
  "PreRunE (cmds (snd (SetupCommand example_deps 0 [None, Some (ObjectPtr foo_object)]
        ((example_world example_config)\<lparr>cmds := (\<lambda>c. example_command\<lparr>PreRunE := Some example_hook\<rparr>)\<rparr>))) 0) =
     Some (SetupThen [None, Some (ObjectPtr foo_object)] (Some example_hook)) \<and>
   fst (callPreRunE example_deps (SetupThen [None, Some (ObjectPtr foo_object)] (Some example_hook))
          0 [''x''] (example_world example_config)) = Returns None \<and>
   filter isHookCall (trace (snd
       (callPreRunE example_deps (SetupThen [None, Some (ObjectPtr foo_object)] (Some example_hook))
          0 [''x''] (example_world example_config)))) = [HookCall 5 0 [''x'']] \<and>
   last (trace (snd
       (callPreRunE example_deps (SetupThen [None, Some (ObjectPtr foo_object)] (Some example_hook))
          0 [''x''] (example_world example_config)))) = HookCall 5 0 [''x''] \<and>
   fst (callPreRunE example_deps (SetupThen [] (Some example_hook)) 0 [''x'']
          (example_world failing_config)) =
     Returns (Some (ErrorString ''invalid application config: boom'')) \<and>
   filter isHookCall (trace (snd
       (callPreRunE example_deps (SetupThen [] (Some example_hook)) 0 [''x'']
          (example_world failing_config)))) = []"
proof -
  from bound_PreRunE[where D = example_deps and c = 0 and cfgs = "[None, Some (ObjectPtr foo_object)]"
        and w = "(example_world example_config)\<lparr>cmds := (\<lambda>c. example_command\<lparr>PreRunE := Some example_hook\<rparr>)\<rparr>"]
  have "PreRunE (cmds (snd (SetupCommand example_deps 0 [None, Some (ObjectPtr foo_object)]
        ((example_world example_config)\<lparr>cmds := (\<lambda>c. example_command\<lparr>PreRunE := Some example_hook\<rparr>)\<rparr>))) 0) =
     Some (SetupThen [None, Some (ObjectPtr foo_object)] (Some example_hook))"
    by (simp add: SetupCommand_def setupCommand_cmds)
  then show ?thesis
    by (simp add: Setup_example Setup_failing_example example_hook_def)
qed

theorem setupCommand_RunE_witness:
  "RunE (cmds (snd (SetupCommand example_deps 0 [] (example_world example_config))) 0) =
     Some (AppRun (UserRun 0)) \<and>
   RunE (cmds (snd (SetupCommand example_deps 0 []
        ((example_world example_config)\<lparr>cmds := (\<lambda>c. example_command\<lparr>RunE := None\<rparr>)\<rparr>))) 0) = None \<and>
   PreRunE (cmds (snd (SetupCommand example_deps 0 []
        ((example_world example_config)\<lparr>cmds := (\<lambda>c. example_command\<lparr>RunE := None\<rparr>)\<rparr>))) 0) =
     Some (SetupThen [] None)"
  using setupCommand_RunE[where D = example_deps and c = 0 and cfgs = "[]" and w = "example_world example_config"]
        setupCommand_RunE[where D = example_deps and c = 0 and cfgs = "[]"
          and w = "(example_world example_config)\<lparr>cmds := (\<lambda>c. example_command\<lparr>RunE := None\<rparr>)\<rparr>"]
  by (simp add: example_world_def example_command_def)

theorem async_channel_witness:
  "ops (exec [False, False, True, False] (async (Some (1, Returns (Some (ErrorString ''boom'')))))) =
     [Send (ErrorString ''boom''), Close] \<and>
   ops (exec [False, False, True] (async (Some (1, Returns (Some (ErrorString ''boom'')))))) =
     [Send (ErrorString ''boom'')] \<and>
   ops (exec [False, False, False] (async (Some (1, Returns None)))) = [Close] \<and>
   ops (exec [True, True] (async (Some (1, Returns None)))) = []"
  using async_channel[where rs = "[False, False, True, False]" and n = 1 and err = "ErrorString ''boom''"]
        async_channel[where rs = "[False, False, True]" and n = 1 and err = "ErrorString ''boom''"]
        async_channel[where rs = "[False, False, False]" and n = 1]
        async_channel[where rs = "[True, True]" and n = 1]
  by simp

end
